theory Spec2Isabelle
  imports Main "HOL-Library.Sublist"
begin

section \<open>The OpenShift provider of Atomic App\<close>

text \<open>
  A shallow embedding of \<^verbatim>\<open>atomicapp/providers/openshift.py\<close> (class
  \<^verbatim>\<open>OpenShiftProvider\<close>). Every method of the class is a HOL function of the same
  name (without the leading underscore, which an Isabelle name cannot start with). The
  attributes of \<^verbatim>\<open>self\<close> are the fields of the record \<open>provider\<close>; the requests sent
  and the lines logged are two more fields of it, so that what a method does to the
  outside is part of its result. A method returns the state it leaves together with
  either its value (\<open>Inr\<close>) or the exception it raises (\<open>Inl\<close>).
\<close>

subsection \<open>Parsed documents\<close>

text \<open>
  What \<^verbatim>\<open>anymarkup.parse\<close> and \<^verbatim>\<open>res.json()\<close> return: \<^verbatim>\<open>None\<close>, booleans, integers,
  strings, lists and dictionaries. A dictionary is an association list whose keys are
  strings, looked up with \<open>map_of\<close>. Strings are byte strings, as Python 2's \<^verbatim>\<open>str\<close>.
  Floating point numbers are left out.
\<close>

datatype json =
    JNull
  | JBool bool
  | JInt int
  | JStr string
  | JList "json list"
  | JDict "(string \<times> json) list"

text \<open>
  A formatted text is kept as its format string and its arguments: \<open>Fmt f args\<close> stands
  for the Python value \<^verbatim>\<open>f % args\<close>.
\<close>

datatype message = Fmt string "json list"

datatype error =
    ProviderFailedException message
  | KeyError
  | IndexError
  | TypeError
  | AttributeError
  | UnboundLocalError
  | IOError
  | RequestException

subsection \<open>Python's operations on parsed documents\<close>

fun bindE :: "error + 'a \<Rightarrow> ('a \<Rightarrow> error + 'b) \<Rightarrow> error + 'b" where
  "bindE (Inl e) f = Inl e"
| "bindE (Inr v) f = f v"

text \<open>Truth value of an object in a condition.\<close>

fun truthy :: "json \<Rightarrow> bool" where
  "truthy JNull = False"
| "truthy (JBool b) = b"
| "truthy (JInt i) = (i \<noteq> 0)"
| "truthy (JStr s) = (s \<noteq> [])"
| "truthy (JList l) = (l \<noteq> [])"
| "truthy (JDict d) = (d \<noteq> [])"

text \<open>\<^verbatim>\<open>x[k]\<close> for a string \<open>k\<close>: only a dictionary can be indexed by a string.\<close>

fun py_getitem :: "json \<Rightarrow> string \<Rightarrow> error + json" where
  "py_getitem (JDict d) k = (case map_of d k of None \<Rightarrow> Inl KeyError | Some v \<Rightarrow> Inr v)"
| "py_getitem v k = Inl TypeError"

text \<open>\<^verbatim>\<open>k in x\<close> for a string \<open>k\<close>: a key of a dictionary, an element of a list, a
  substring of a string; the other values are not iterable.\<close>

fun py_contains :: "string \<Rightarrow> json \<Rightarrow> error + bool" where
  "py_contains k (JDict d) = Inr (map_of d k \<noteq> None)"
| "py_contains k (JList l) = Inr (JStr k \<in> set l)"
| "py_contains k (JStr s) = Inr (sublist k s)"
| "py_contains k v = Inl TypeError"

text \<open>\<^verbatim>\<open>for x in v\<close>: the elements of a list, the keys of a dictionary, the characters
  of a string.\<close>

fun py_iter :: "json \<Rightarrow> error + json list" where
  "py_iter (JList l) = Inr l"
| "py_iter (JDict d) = Inr (map (\<lambda>kv. JStr (fst kv)) d)"
| "py_iter (JStr s) = Inr (map (\<lambda>c. JStr [c]) s)"
| "py_iter v = Inl TypeError"

text \<open>\<^verbatim>\<open>str.lower\<close> on a byte string: the letters A to Z, and nothing else, change.\<close>

definition lower_char :: "char \<Rightarrow> char" where
  "lower_char c =
     (case map_of (zip ''ABCDEFGHIJKLMNOPQRSTUVWXYZ'' ''abcdefghijklmnopqrstuvwxyz'') c of
        None \<Rightarrow> c
      | Some d \<Rightarrow> d)"

definition lower :: "string \<Rightarrow> string" where
  "lower s = map lower_char s"

text \<open>\<^verbatim>\<open>v.lower()\<close> on a parsed value: only a string has the method.\<close>

fun py_lower :: "json \<Rightarrow> error + string" where
  "py_lower (JStr s) = Inr (lower s)"
| "py_lower v = Inl AttributeError"

definition endswith :: "string \<Rightarrow> string \<Rightarrow> bool" where
  "endswith s suf = (length suf \<le> length s \<and> drop (length s - length suf) s = suf)"

text \<open>\<^verbatim>\<open>s.rstrip("y")\<close> removes every trailing \<open>y\<close>, not only one.\<close>

definition rstrip :: "char \<Rightarrow> string \<Rightarrow> string" where
  "rstrip c s = rev (dropWhile (\<lambda>x. x = c) (rev s))"

subsection \<open>Kind to resource name\<close>

text \<open>
  \<^verbatim>\<open>_kind_to_resource\<close>. \<^verbatim>\<open>singular[-1]\<close> raises \<^verbatim>\<open>IndexError\<close> on the empty string,
  which does not end in \<^verbatim>\<open>status\<close>.
\<close>

definition kind_to_resource :: "string \<Rightarrow> error + string" where
  "kind_to_resource kind =
     (let singular = lower kind in
      if endswith singular ''status'' then Inr (singular @ ''es'')
      else if singular = [] then Inl IndexError
      else if last singular = CHR ''s'' then Inr singular
      else if last singular = CHR ''y'' then Inr (rstrip (CHR ''y'') singular @ ''ies'')
      else Inr (singular @ ''s''))"

text \<open>
  The rule in the words of the specification, for comparison: one trailing \<open>y\<close> is
  replaced, and every string has a plural.
\<close>

definition namer_spec :: "string \<Rightarrow> string" where
  "namer_spec kind =
     (let singular = lower kind in
      if endswith singular ''status'' then singular @ ''es''
      else if endswith singular ''s'' then singular
      else if endswith singular ''y'' then butlast singular @ ''ies''
      else singular @ ''s'')"

subsection \<open>The provider and what surrounds it\<close>

text \<open>
  A request is the HTTP method, the URL and the JSON body (\<open>JNull\<close> when none is sent).
  A response is either a status code with a body (\<open>None\<close> when the body is not valid
  JSON, where \<^verbatim>\<open>res.json()\<close> raises \<^verbatim>\<open>ValueError\<close>) or one of the exceptions of the
  \<^verbatim>\<open>requests\<close> library.
\<close>

type_synonym request = "string \<times> json \<times> json"

datatype response =
    Response int "json option"
  | ConnectTimeout
  | ReadTimeout
  | OtherFailure

text \<open>
  What the class takes from outside the file: the constants of
  \<^verbatim>\<open>atomicapp.constants\<close>, \<^verbatim>\<open>urljoin\<close> of the standard library, the cluster (its
  answer to a request may depend on the requests made before), the files read through
  \<^verbatim>\<open>open\<close> and \<^verbatim>\<open>anymarkup.parse\<close>, and Python's \<^verbatim>\<open>str\<close> on values other than
  strings. They are parameters of the model.
\<close>

record env =
  ACCESS_TOKEN_KEY :: string
  ANSWERS_FILE :: string
  DEFAULT_NAMESPACE :: string
  NAMESPACE_KEY :: string
  PROVIDER_API_KEY :: string
  urljoin :: "json \<Rightarrow> string \<Rightarrow> error + string"
  respond :: "request list \<Rightarrow> request \<Rightarrow> response"
  read_artifact :: "string \<Rightarrow> string \<Rightarrow> error + json"
  read_kubeconf :: "string \<Rightarrow> error + json"
  str_other :: "json \<Rightarrow> string"

text \<open>
  The attributes of an instance. \<open>oapi_resources\<close> and \<open>kapi_resources\<close> are not class
  attributes: they exist only once assigned (\<open>None\<close> is the missing attribute, read with
  \<^verbatim>\<open>AttributeError\<close>). \<open>config\<close>, \<open>path\<close>, \<open>artifacts\<close> and \<open>dryrun\<close> are set by the
  base class. The dictionary \<open>openshift_artifacts\<close> is an association list: a new key goes
  to its end, and \<^verbatim>\<open>iteritems\<close> walks it from the front. \<open>calls\<close> are the requests sent
  so far and \<open>logged\<close> the calls of the logger, both in order.
\<close>

record provider =
  config :: "string \<Rightarrow> json option"
  config_file :: "string option"
  path :: string
  artifacts :: "string list"
  dryrun :: bool
  providerapi :: json
  openshift_api :: json
  kubernetes_api :: json
  access_token :: json
  namespace :: json
  oapi_resources :: "json list option"
  kapi_resources :: "json list option"
  openshift_artifacts :: "(string \<times> json list) list"
  calls :: "request list"
  logged :: "(string \<times> message) list"

text \<open>A new instance carries the class attributes.\<close>

definition OpenShiftProvider ::
  "env \<Rightarrow> (string \<Rightarrow> json option) \<Rightarrow> string option \<Rightarrow> string \<Rightarrow> string list \<Rightarrow> bool \<Rightarrow> provider" where
  "OpenShiftProvider env cfg cfile pth arts dry =
     \<lparr>config = cfg, config_file = cfile, path = pth, artifacts = arts, dryrun = dry,
      providerapi = JStr ''https://127.0.0.1:8443'', openshift_api = JNull,
      kubernetes_api = JNull, access_token = JNull,
      namespace = JStr (DEFAULT_NAMESPACE env),
      oapi_resources = None, kapi_resources = None, openshift_artifacts = [],
      calls = [], logged = []\<rparr>"

type_synonym 'a result = "(error + 'a) \<times> provider"

definition seqE ::
  "(provider \<Rightarrow> 'a result) \<Rightarrow> ('a \<Rightarrow> provider \<Rightarrow> 'b result) \<Rightarrow> provider \<Rightarrow> 'b result" where
  "seqE m f s = (case m s of (Inl e, s') \<Rightarrow> (Inl e, s') | (Inr v, s') \<Rightarrow> f v s')"

definition liftE :: "error + 'a \<Rightarrow> provider \<Rightarrow> 'a result" where
  "liftE r s = (r, s)"

definition modify :: "(provider \<Rightarrow> provider) \<Rightarrow> provider \<Rightarrow> unit result" where
  "modify f s = (Inr (), f s)"

definition logger :: "string \<Rightarrow> message \<Rightarrow> provider \<Rightarrow> unit result" where
  "logger level msg s = (Inr (), s\<lparr>logged := logged s @ [(level, msg)]\<rparr>)"

text \<open>A \<^verbatim>\<open>for\<close> loop over a list: the first exception ends it.\<close>

fun for_each :: "('a \<Rightarrow> provider \<Rightarrow> unit result) \<Rightarrow> 'a list \<Rightarrow> provider \<Rightarrow> unit result" where
  "for_each body [] s = (Inr (), s)"
| "for_each body (x # xs) s =
     (case body x s of (Inl e, s') \<Rightarrow> (Inl e, s') | (Inr u, s') \<Rightarrow> for_each body xs s')"

text \<open>
  A call of a method declared with no parameter besides \<^verbatim>\<open>self\<close>: Python raises
  \<^verbatim>\<open>TypeError\<close> when a positional argument is passed, before the body runs.
\<close>

definition call_no_args :: "json list \<Rightarrow> (provider \<Rightarrow> 'a result) \<Rightarrow> provider \<Rightarrow> 'a result" where
  "call_no_args args m s = (if args = [] then m s else (Inl TypeError, s))"

text \<open>\<^verbatim>\<open>"%s" % v\<close> and \<^verbatim>\<open>"{}".format(v)\<close>.\<close>

definition py_str :: "env \<Rightarrow> json \<Rightarrow> string" where
  "py_str env v =
     (case v of
        JStr s \<Rightarrow> s
      | JNull \<Rightarrow> ''None''
      | JBool b \<Rightarrow> (if b then ''True'' else ''False'')
      | _ \<Rightarrow> str_other env v)"

subsection \<open>Requests\<close>

text \<open>
  \<^verbatim>\<open>_make_request\<close>. A method other than get, post and delete leaves \<^verbatim>\<open>res\<close> unbound.
  A body that is not JSON gives \<^verbatim>\<open>None\<close> with the status code kept.
\<close>

definition make_request :: "env \<Rightarrow> string \<Rightarrow> json \<Rightarrow> json \<Rightarrow> provider \<Rightarrow> (int \<times> json) result" where
  "make_request env method url data s =
     (let m = lower method in
      if m = ''get'' \<or> m = ''post'' \<or> m = ''delete'' then
        (let req = (m, url, if m = ''get'' then JNull else data);
             s' = s\<lparr>calls := calls s @ [req]\<rparr>
         in case respond env (calls s) req of
              Response status_code body \<Rightarrow>
                (Inr (status_code, case body of None \<Rightarrow> JNull | Some d \<Rightarrow> d), s')
            | ConnectTimeout \<Rightarrow>
                seqE (logger ''error'' (Fmt ''Timeout when connecting to  %s'' [url]))
                  (\<lambda>_. liftE (Inl (ProviderFailedException
                                     (Fmt ''Timeout when connecting to  %s'' [url])))) s'
            | ReadTimeout \<Rightarrow>
                seqE (logger ''error'' (Fmt ''Timeout when reading from %s'' [url]))
                  (\<lambda>_. liftE (Inl (ProviderFailedException
                                     (Fmt ''Timeout when reading from %s'' [url])))) s'
            | OtherFailure \<Rightarrow> (Inl RequestException, s'))
      else (Inl UnboundLocalError, s))"

subsection \<open>Discovery\<close>

text \<open>\<^verbatim>\<open>[res['name'] for res in resources]\<close>\<close>

fun names_of :: "json list \<Rightarrow> error + json list" where
  "names_of [] = Inr []"
| "names_of (res # rest) =
     bindE (py_getitem res ''name'') (\<lambda>n. bindE (names_of rest) (\<lambda>ns. Inr (n # ns)))"

definition get_kapi_resources :: "env \<Rightarrow> provider \<Rightarrow> json list result" where
  "get_kapi_resources env =
     seqE (\<lambda>s. make_request env ''get'' (kubernetes_api s) JNull s) (\<lambda>(status_code, return_data).
       if status_code = 200 then
         seqE (liftE (bindE (py_getitem return_data ''resources'')
                        (\<lambda>rs. bindE (py_iter rs) names_of))) (\<lambda>kapi.
         seqE (logger ''debug'' (Fmt ''Kubernetes resources %s'' [JList kapi])) (\<lambda>_.
         liftE (Inr kapi)))
       else liftE (Inl (ProviderFailedException
                          (Fmt ''Cannot get Kubernetes resource list'' []))))"

definition get_oapi_resources :: "env \<Rightarrow> provider \<Rightarrow> json list result" where
  "get_oapi_resources env =
     seqE (\<lambda>s. make_request env ''get'' (openshift_api s) JNull s) (\<lambda>(status_code, return_data).
       if status_code = 200 then
         seqE (liftE (bindE (py_getitem return_data ''resources'')
                        (\<lambda>rs. bindE (py_iter rs) names_of))) (\<lambda>oapi.
         seqE (logger ''debug'' (Fmt ''Openshift resources %s'' [JList oapi])) (\<lambda>_.
         liftE (Inr oapi)))
       else liftE (Inl (ProviderFailedException
                          (Fmt ''Cannot get OpenShift resource list'' []))))"

subsection \<open>Namespace and URL of an object\<close>

text \<open>\<^verbatim>\<open>_get_namespace\<close>; \<^verbatim>\<open>and\<close> evaluates its right side only when the left holds.\<close>

definition get_namespace :: "provider \<Rightarrow> json \<Rightarrow> error + json" where
  "get_namespace s artifact =
     bindE (py_contains ''metadata'' artifact) (\<lambda>has_metadata.
       if has_metadata then
         bindE (py_getitem artifact ''metadata'') (\<lambda>metadata.
         bindE (py_contains ''namespace'' metadata) (\<lambda>has_namespace.
           if has_namespace then py_getitem metadata ''namespace''
           else Inr (namespace s)))
       else Inr (namespace s))"

text \<open>
  The base of \<^verbatim>\<open>_get_url\<close>: the OpenShift API when the resource is in its list,
  otherwise the Kubernetes API when it is in that list, otherwise \<^verbatim>\<open>None\<close>.
\<close>

definition api_base :: "provider \<Rightarrow> string \<Rightarrow> error + json" where
  "api_base s resource =
     (case oapi_resources s of
        None \<Rightarrow> Inl AttributeError
      | Some oapi \<Rightarrow>
          if JStr resource \<in> set oapi then Inr (openshift_api s)
          else (case kapi_resources s of
                  None \<Rightarrow> Inl AttributeError
                | Some kapi \<Rightarrow>
                    if JStr resource \<in> set kapi then Inr (kubernetes_api s) else Inr JNull))"

text \<open>\<^verbatim>\<open>if name:\<close> holds for a name that is given and not empty.\<close>

definition requested :: "string option \<Rightarrow> bool" where
  "requested name = (case name of None \<Rightarrow> False | Some n \<Rightarrow> n \<noteq> [])"

definition get_url :: "env \<Rightarrow> json \<Rightarrow> string \<Rightarrow> string option \<Rightarrow> provider \<Rightarrow> string result" where
  "get_url env ns kind name =
     seqE (liftE (kind_to_resource kind)) (\<lambda>resource.
     seqE (\<lambda>s. liftE (api_base s resource) s) (\<lambda>base.
     seqE (liftE (urljoin env base
             (''namespaces/'' @ py_str env ns @ ''/'' @ resource @ ''/''))) (\<lambda>url1.
     seqE (liftE (if requested name then urljoin env (JStr url1) (the name) else Inr url1)) (\<lambda>url2.
     seqE (\<lambda>s. liftE (urljoin env (JStr url2)
                  (''?access_token='' @ py_str env (access_token s))) s) (\<lambda>url.
     seqE (logger ''debug'' (Fmt ''url: %s'' [JStr url])) (\<lambda>_.
     liftE (Inr url)))))))"


subsection \<open>Configuration\<close>

text \<open>
  The three loops of \<^verbatim>\<open>_parse_kubeconf\<close>: the last entry whose name is the wanted one
  is kept. The wanted name is evaluated in every round, after the name of the entry.
\<close>

fun find_entry :: "json list \<Rightarrow> error + json \<Rightarrow> json \<Rightarrow> error + json" where
  "find_entry [] wanted found = Inr found"
| "find_entry (x # xs) wanted found =
     bindE (py_getitem x ''name'') (\<lambda>n.
     bindE wanted (\<lambda>w.
     find_entry xs wanted (if n = w then x else found)))"

text \<open>
  \<^verbatim>\<open>_parse_kubeconf\<close>, on the document that \<^verbatim>\<open>anymarkup.parse\<close> returns for the file.
  The comparison \<^verbatim>\<open>==\<close> is the equality of parsed values, which is Python's on the
  strings the file format holds.
\<close>

definition parse_kubeconf :: "env \<Rightarrow> string \<Rightarrow> provider \<Rightarrow> (json \<times> json \<times> json) result" where
  "parse_kubeconf env filename =
     seqE (logger ''debug'' (Fmt ''Parsing %s'' [JStr filename])) (\<lambda>_.
     seqE (liftE (read_kubeconf env filename)) (\<lambda>kubecfg.
     seqE (liftE (py_getitem kubecfg ''current-context'')) (\<lambda>current_context.
     seqE (logger ''debug'' (Fmt ''current context: %s'' [current_context])) (\<lambda>_.
     seqE (liftE (bindE (py_getitem kubecfg ''contexts'') (\<lambda>v. bindE (py_iter v) (\<lambda>cos.
             find_entry cos (Inr current_context) JNull)))) (\<lambda>context.
     seqE (liftE (bindE (py_getitem kubecfg ''clusters'') (\<lambda>v. bindE (py_iter v) (\<lambda>cls.
             find_entry cls
               (bindE (py_getitem context ''context'') (\<lambda>c. py_getitem c ''cluster''))
               JNull)))) (\<lambda>cluster.
     seqE (liftE (bindE (py_getitem kubecfg ''users'') (\<lambda>v. bindE (py_iter v) (\<lambda>usrs.
             find_entry usrs
               (bindE (py_getitem context ''context'') (\<lambda>c. py_getitem c ''user''))
               JNull)))) (\<lambda>user.
     if truthy context \<and> truthy cluster \<and> truthy user then
       seqE (logger ''debug'' (Fmt ''context: %s'' [context])) (\<lambda>_.
       seqE (logger ''debug'' (Fmt ''cluster: %s'' [cluster])) (\<lambda>_.
       seqE (logger ''debug'' (Fmt ''user: %s'' [user])) (\<lambda>_.
       seqE (liftE (bindE (py_getitem cluster ''cluster'') (\<lambda>c. py_getitem c ''server''))) (\<lambda>url.
       seqE (liftE (bindE (py_getitem user ''user'') (\<lambda>u. py_getitem u ''token''))) (\<lambda>token.
       seqE (liftE (bindE (py_getitem context ''context'') (\<lambda>c.
               bindE (py_contains ''namespace'' c) (\<lambda>has_namespace.
                 if has_namespace then py_getitem c ''namespace'' else Inr JNull)))) (\<lambda>ns.
       liftE (Inr (url, token, ns))))))))
     else liftE (Inl (ProviderFailedException (Fmt ''Invalid %s'' [JStr filename]))))))))))"

text \<open>\<^verbatim>\<open>self.config.get(key)\<close>\<close>

definition config_get :: "provider \<Rightarrow> string \<Rightarrow> json" where
  "config_get s key = (case config s key of None \<Rightarrow> JNull | Some v \<Rightarrow> v)"

text \<open>
  The values of the provider's config file: those of \<^verbatim>\<open>_parse_kubeconf\<close> when
  \<^verbatim>\<open>self.config_file\<close> is set, and \<^verbatim>\<open>None\<close> three times otherwise.
\<close>

definition read_providerconfig :: "env \<Rightarrow> provider \<Rightarrow> (json \<times> json \<times> json) result" where
  "read_providerconfig env s =
     (case config_file s of
        None \<Rightarrow> (Inr (JNull, JNull, JNull), s)
      | Some f \<Rightarrow> if f = [] then (Inr (JNull, JNull, JNull), s) else parse_kubeconf env f s)"

definition conflict :: "env \<Rightarrow> provider \<Rightarrow> json \<Rightarrow> json \<Rightarrow> message" where
  "conflict env s p a =
     Fmt ''There are conflicting values in %s (%s) and %s (%s)''
       [case config_file s of None \<Rightarrow> JNull | Some f \<Rightarrow> JStr f, p, JStr (ANSWERS_FILE env), a]"

text \<open>
  One round of the loop of \<^verbatim>\<open>_get_config_values\<close>, for one key: \<open>r\<close> is
  \<^verbatim>\<open>result[k]\<close> before the round, \<open>a\<close> is \<^verbatim>\<open>answers[k]\<close> and \<open>p\<close> is
  \<^verbatim>\<open>providerconfig[k]\<close>. The value returned is \<^verbatim>\<open>result[k]\<close> after the round.
\<close>

definition decide :: "env \<Rightarrow> json \<Rightarrow> json \<Rightarrow> json \<Rightarrow> provider \<Rightarrow> json result" where
  "decide env r a p =
     (let r1 = (if truthy a \<and> \<not> truthy p then a else r);
          r2 = (if \<not> truthy a \<and> truthy p then p else r1)
      in if truthy a \<and> truthy p then
           (if a = p then liftE (Inr a)
            else (\<lambda>s. seqE (logger ''error'' (conflict env s p a))
                        (\<lambda>_. liftE (Inl (ProviderFailedException (conflict env s p a)))) s))
         else liftE (Inr r2))"

definition get_config_values :: "env \<Rightarrow> provider \<Rightarrow> (json \<times> json \<times> json) result" where
  "get_config_values env s0 =
     seqE (read_providerconfig env) (\<lambda>(p_api, p_token, p_ns).
     seqE (decide env (namespace s0) (config_get s0 (NAMESPACE_KEY env)) p_ns) (\<lambda>r_ns.
     seqE (decide env (access_token s0) (config_get s0 (ACCESS_TOKEN_KEY env)) p_token) (\<lambda>r_token.
     seqE (decide env (providerapi s0) (config_get s0 (PROVIDER_API_KEY env)) p_api) (\<lambda>r_api.
     liftE (Inr (r_api, r_token, r_ns)))))) s0"


subsection \<open>Processing the artifacts\<close>

text \<open>
  \<^verbatim>\<open>if k not in d.keys(): d[k] = []\<close> followed by \<^verbatim>\<open>d[k].append(x)\<close>.
\<close>

definition registry_append ::
  "string \<Rightarrow> json \<Rightarrow> (string \<times> json list) list \<Rightarrow> (string \<times> json list) list" where
  "registry_append k x reg =
     (if map_of reg k = None then reg @ [(k, [x])]
      else map (\<lambda>(k', xs). if k' = k then (k', xs @ [x]) else (k', xs)) reg)"

definition process_template :: "env \<Rightarrow> json \<Rightarrow> provider \<Rightarrow> json result" where
  "process_template env template =
     seqE (logger ''debug'' (Fmt ''processing template: %s'' [template])) (\<lambda>_.
     seqE (\<lambda>s. liftE (get_namespace s template) s) (\<lambda>ns.
     seqE (get_url env ns ''processedtemplates'' None) (\<lambda>url.
     seqE (make_request env ''post'' (JStr url) template) (\<lambda>(status_code, return_data).
       if status_code = 201 then
         seqE (liftE (bindE (py_getitem template ''metadata'') (\<lambda>m. py_getitem m ''name''))) (\<lambda>n.
         seqE (logger ''info'' (Fmt ''template proccessed %s'' [n])) (\<lambda>_.
         seqE (logger ''debug'' (Fmt ''processed template %s'' [return_data])) (\<lambda>_.
         liftE (py_getitem return_data ''objects''))))
       else
         seqE (logger ''error'' (Fmt ''%s %s'' [JInt status_code, return_data])) (\<lambda>_.
         liftE (Inl (ProviderFailedException (Fmt ''%s %s'' [JInt status_code, return_data]))))))))"

text \<open>\<^verbatim>\<open>"kind" in data.keys()\<close>: only a dictionary has keys.\<close>

fun has_key :: "json \<Rightarrow> string \<Rightarrow> error + bool" where
  "has_key (JDict d) k = Inr (map_of d k \<noteq> None)"
| "has_key v k = Inl AttributeError"

text \<open>
  \<^verbatim>\<open>resource in self.oapi_resources or resource in self.kapi_resources\<close>, the negation
  of the test of \<^verbatim>\<open>_process_artifacts\<close>.
\<close>

definition supported :: "provider \<Rightarrow> string \<Rightarrow> error + bool" where
  "supported s resource =
     (case oapi_resources s of
        None \<Rightarrow> Inl AttributeError
      | Some oapi \<Rightarrow>
          if JStr resource \<in> set oapi then Inr True
          else (case kapi_resources s of
                  None \<Rightarrow> Inl AttributeError
                | Some kapi \<Rightarrow> Inr (JStr resource \<in> set kapi)))"

text \<open>The body of the loop over the objects of a processed template.\<close>

definition add_object :: "json \<Rightarrow> provider \<Rightarrow> unit result" where
  "add_object ob =
     seqE (liftE (bindE (py_getitem ob ''kind'') py_lower)) (\<lambda>obj_kind.
     modify (\<lambda>s. s\<lparr>openshift_artifacts := registry_append obj_kind ob (openshift_artifacts s)\<rparr>))"

text \<open>The body of the loop of \<^verbatim>\<open>_process_artifacts\<close>.\<close>

definition process_artifact :: "env \<Rightarrow> string \<Rightarrow> provider \<Rightarrow> unit result" where
  "process_artifact env artifact =
     seqE (logger ''debug'' (Fmt ''Processing artifact: %s'' [JStr artifact])) (\<lambda>_.
     seqE (\<lambda>s. liftE (read_artifact env (path s) artifact) s) (\<lambda>data.
     seqE (liftE (has_key data ''kind'')) (\<lambda>has_kind.
       if has_kind then
         seqE (liftE (bindE (py_getitem data ''kind'') py_lower)) (\<lambda>kind.
         seqE (liftE (kind_to_resource kind)) (\<lambda>resource.
         seqE (\<lambda>s. liftE (supported s resource) s) (\<lambda>ok.
           if ok then
             (if kind = ''template'' then
                seqE (process_template env data) (\<lambda>processed_objects.
                seqE (liftE (py_iter processed_objects)) (\<lambda>objs.
                for_each add_object objs))
              else
                modify (\<lambda>s. s\<lparr>openshift_artifacts :=
                                 registry_append kind data (openshift_artifacts s)\<rparr>))
           else
             liftE (Inl (ProviderFailedException
                          (Fmt ''Unsupported kind %s in artifact %s''
                             [JStr kind, JStr artifact]))))))
       else
         liftE (Inl (ProviderFailedException
                      (Fmt ''Error processing %s artifact. There is no kind''
                         [JStr artifact]))))))"

definition process_artifacts :: "env \<Rightarrow> provider \<Rightarrow> unit result" where
  "process_artifacts env s = for_each (process_artifact env) (artifacts s) s"

subsection \<open>Deployment\<close>

text \<open>The body of the inner loop of \<^verbatim>\<open>deploy\<close>.\<close>

definition deploy_artifact :: "env \<Rightarrow> string \<Rightarrow> json \<Rightarrow> provider \<Rightarrow> unit result" where
  "deploy_artifact env kind artifact =
     seqE (\<lambda>s. liftE (get_namespace s artifact) s) (\<lambda>ns.
     seqE (get_url env ns kind None) (\<lambda>url s.
       if dryrun s then logger ''info'' (Fmt ''DRY-RUN: %s'' [JStr url]) s
       else
         seqE (make_request env ''post'' (JStr url) artifact) (\<lambda>(status_code, return_data).
           if status_code = 201 then
             seqE (liftE (bindE (py_getitem artifact ''metadata'') (\<lambda>m. py_getitem m ''name''))) (\<lambda>n.
             logger ''info'' (Fmt ''Object %s sucessfully deployed.'' [n]))
           else
             seqE (logger ''error'' (Fmt ''%s %s'' [JInt status_code, return_data])) (\<lambda>_.
             liftE (Inl (ProviderFailedException
                          (Fmt ''%s %s'' [JInt status_code, return_data]))))) s))"

definition deploy :: "env \<Rightarrow> provider \<Rightarrow> unit result" where
  "deploy env =
     seqE (logger ''debug'' (Fmt ''Deploying to OpenShift'' [])) (\<lambda>_ s.
     for_each (\<lambda>(kind, objects). for_each (deploy_artifact env kind) objects)
       (openshift_artifacts s) s)"

text \<open>The objects of the registry in the order \<^verbatim>\<open>deploy\<close> visits them, each with its key.\<close>

definition registry_items :: "(string \<times> json list) list \<Rightarrow> (string \<times> json) list" where
  "registry_items reg = concat (map (\<lambda>(kind, objects). map (Pair kind) objects) reg)"

text \<open>The URL that \<^verbatim>\<open>deploy\<close> computes for an object, in a given state.\<close>

definition would_be_url :: "env \<Rightarrow> provider \<Rightarrow> string \<Rightarrow> json \<Rightarrow> error + string" where
  "would_be_url env s kind artifact =
     bindE (get_namespace s artifact) (\<lambda>ns. fst (get_url env ns kind None s))"

subsection \<open>Initialisation\<close>

text \<open>
  \<^verbatim>\<open>init\<close>. The two discovery methods are declared with \<^verbatim>\<open>self\<close> alone and called
  with \<^verbatim>\<open>self.providerapi\<close> as an argument.
\<close>

definition init :: "env \<Rightarrow> provider \<Rightarrow> unit result" where
  "init env =
     seqE (modify (\<lambda>s. s\<lparr>openshift_artifacts := []\<rparr>)) (\<lambda>_.
     seqE (get_config_values env) (\<lambda>(api, token, ns).
     seqE (modify (\<lambda>s. s\<lparr>providerapi := api, access_token := token, namespace := ns\<rparr>)) (\<lambda>_.
     seqE (\<lambda>s. liftE (urljoin env (providerapi s) ''api/v1/'') s) (\<lambda>kapi_url.
     seqE (modify (\<lambda>s. s\<lparr>kubernetes_api := JStr kapi_url\<rparr>)) (\<lambda>_.
     seqE (\<lambda>s. liftE (urljoin env (providerapi s) ''oapi/v1/'') s) (\<lambda>oapi_url.
     seqE (modify (\<lambda>s. s\<lparr>openshift_api := JStr oapi_url\<rparr>)) (\<lambda>_.
     seqE (\<lambda>s. logger ''debug'' (Fmt ''kubernetes_api = %s'' [kubernetes_api s]) s) (\<lambda>_.
     seqE (\<lambda>s. logger ''debug'' (Fmt ''openshift_api = %s'' [openshift_api s]) s) (\<lambda>_.
     seqE (\<lambda>s. call_no_args [providerapi s] (get_oapi_resources env) s) (\<lambda>oapi.
     seqE (modify (\<lambda>s. s\<lparr>oapi_resources := Some oapi\<rparr>)) (\<lambda>_.
     seqE (\<lambda>s. call_no_args [providerapi s] (get_kapi_resources env) s) (\<lambda>kapi.
     seqE (modify (\<lambda>s. s\<lparr>kapi_resources := Some kapi\<rparr>)) (\<lambda>_.
     process_artifacts env)))))))))))))"


text \<open>The lines logged in a dry run for the objects with the given URLs.\<close>

definition dry_lines :: "string list \<Rightarrow> (string \<times> message) list" where
  "dry_lines urls = concat (map (\<lambda>u. [(''debug'', Fmt ''url: %s'' [JStr u]),
                                     (''info'', Fmt ''DRY-RUN: %s'' [JStr u])]) urls)"

section \<open>Concrete inputs\<close>

text \<open>
  \<^verbatim>\<open>urljoin\<close> where it only concatenates: a base that ends in a slash (or a base with
  a path and a reference that is a query), and a reference with no scheme, no authority
  and no dot segment. Without a base the reference is returned.
\<close>

definition concat_join :: "json \<Rightarrow> string \<Rightarrow> error + string" where
  "concat_join base ref =
     (case base of JStr b \<Rightarrow> Inr (b @ ref) | JNull \<Rightarrow> Inr ref | _ \<Rightarrow> Inl AttributeError)"

text \<open>
  An environment with the constants of Atomic App, for a given config file, given
  artifact files and a given cluster.
\<close>

definition test_env ::
  "(string \<Rightarrow> error + json) \<Rightarrow> (string \<Rightarrow> string \<Rightarrow> error + json) \<Rightarrow>
   (request list \<Rightarrow> request \<Rightarrow> response) \<Rightarrow> env" where
  "test_env kube files cluster =
     \<lparr>ACCESS_TOKEN_KEY = ''accesstoken'', ANSWERS_FILE = ''answers.conf'',
      DEFAULT_NAMESPACE = ''default'', NAMESPACE_KEY = ''namespace'',
      PROVIDER_API_KEY = ''providerapi'', urljoin = concat_join, respond = cluster,
      read_artifact = files, read_kubeconf = kube, str_other = (\<lambda>v. ''?'')\<rparr>"

text \<open>The config file of the docstring of \<^verbatim>\<open>_parse_kubeconf\<close>.\<close>

definition kubecfg_example :: json where
  "kubecfg_example = JDict
     [(''apiVersion'', JStr ''v1''),
      (''clusters'', JList [JDict
         [(''cluster'', JDict [(''server'', JStr ''https://10.1.2.2:8443'')]),
          (''name'', JStr ''10-1-2-2:8443'')]]),
      (''contexts'', JList [JDict
         [(''context'', JDict
            [(''cluster'', JStr ''10-1-2-2:8443''),
             (''namespace'', JStr ''test''),
             (''user'', JStr ''test-admin/10-1-2-2:8443'')]),
          (''name'', JStr ''test/10-1-2-2:8443/test-admin'')]]),
      (''current-context'', JStr ''test/10-1-2-2:8443/test-admin''),
      (''kind'', JStr ''Config''),
      (''preferences'', JDict []),
      (''users'', JList [JDict
         [(''name'', JStr ''test-admin/10-1-2-2:8443''),
          (''user'', JDict [(''token'', JStr ''abcdef'')])]])]"

text \<open>The same file with a current context that no entry of \<open>contexts\<close> has.\<close>

definition kubecfg_unknown_context :: json where
  "kubecfg_unknown_context = JDict
     [(''clusters'', JList [JDict
         [(''cluster'', JDict [(''server'', JStr ''https://10.1.2.2:8443'')]),
          (''name'', JStr ''10-1-2-2:8443'')]]),
      (''contexts'', JList [JDict
         [(''context'', JDict
            [(''cluster'', JStr ''10-1-2-2:8443''),
             (''user'', JStr ''test-admin/10-1-2-2:8443'')]),
          (''name'', JStr ''test/10-1-2-2:8443/test-admin'')]]),
      (''current-context'', JStr ''production''),
      (''users'', JList [JDict
         [(''name'', JStr ''test-admin/10-1-2-2:8443''),
          (''user'', JDict [(''token'', JStr ''abcdef'')])]])]"

text \<open>A config file with a current context and no context, cluster or user at all.\<close>

definition kubecfg_empty :: json where
  "kubecfg_empty = JDict
     [(''clusters'', JList []), (''contexts'', JList []),
      (''current-context'', JStr ''production''), (''users'', JList [])]"

text \<open>Objects as the artifact files and the cluster hold them.\<close>

definition pod_web :: json where
  "pod_web = JDict [(''kind'', JStr ''Pod''), (''metadata'', JDict [(''name'', JStr ''web'')])]"

definition pod_db :: json where
  "pod_db = JDict [(''kind'', JStr ''Pod''),
     (''metadata'', JDict [(''name'', JStr ''db''), (''namespace'', JStr ''backend'')])]"

definition pod_unnamed :: json where
  "pod_unnamed = JDict [(''kind'', JStr ''Pod''), (''metadata'', JDict [(''labels'', JDict [])])]"

definition service_svc1 :: json where
  "service_svc1 = JDict [(''kind'', JStr ''Service''), (''metadata'', JDict [(''name'', JStr ''svc1'')])]"

definition crontab_example :: json where
  "crontab_example = JDict [(''kind'', JStr ''CronTab''), (''metadata'', JDict [(''name'', JStr ''nightly'')])]"

definition template_example :: json where
  "template_example = JDict [(''kind'', JStr ''Template''),
     (''metadata'', JDict [(''name'', JStr ''app'')]), (''objects'', JList [])]"

definition template_unnamed :: json where
  "template_unnamed = JDict [(''kind'', JStr ''Template''), (''objects'', JList [])]"

text \<open>The artifact files of an application.\<close>

definition files_example :: "string \<Rightarrow> string \<Rightarrow> error + json" where
  "files_example dir artifact =
     (case map_of [(''pod.json'', pod_web), (''template.json'', template_example),
                   (''crontab.json'', crontab_example)] artifact of
        None \<Rightarrow> Inl IOError
      | Some v \<Rightarrow> Inr v)"

text \<open>
  A cluster that answers the first \<open>n\<close> requests with status 201 and the objects of a
  processed template, and every later request with status 409.
\<close>

definition cluster_example :: "nat \<Rightarrow> request list \<Rightarrow> request \<Rightarrow> response" where
  "cluster_example n cs r =
     (if length cs < n
      then Response 201 (Some (JDict [(''objects'', JList [service_svc1, pod_web, pod_db])]))
      else Response 409 (Some (JDict [(''message'', JStr ''already exists'')])))"

text \<open>
  A provider after discovery: the attributes that \<^verbatim>\<open>init\<close> assigns, for the default
  endpoint, the namespace \<open>myproject\<close> and two lists of resources.
\<close>

definition discovered ::
  "env \<Rightarrow> string list \<Rightarrow> bool \<Rightarrow> (string \<times> json list) list \<Rightarrow> provider" where
  "discovered env arts dry reg =
     (OpenShiftProvider env (\<lambda>k. None) None ''app'' arts dry)
       \<lparr>openshift_api := JStr ''https://127.0.0.1:8443/oapi/v1/'',
        kubernetes_api := JStr ''https://127.0.0.1:8443/api/v1/'',
        namespace := JStr ''myproject'',
        oapi_resources := Some [JStr ''deploymentconfigs'', JStr ''templates'',
                                JStr ''processedtemplates''],
        kapi_resources := Some [JStr ''pods'', JStr ''services''],
        openshift_artifacts := reg\<rparr>"

text \<open>Two manifests on which the resource namer leaves its rule, and their files.\<close>

definition manifest_empty_kind :: json where
  "manifest_empty_kind = JDict [(''kind'', JStr []), (''metadata'', JDict [(''name'', JStr ''web'')])]"

definition manifest_proxyy :: json where
  "manifest_proxyy = JDict [(''kind'', JStr ''Proxyy''), (''metadata'', JDict [(''name'', JStr ''edge'')])]"

definition files_namer :: "string \<Rightarrow> string \<Rightarrow> error + json" where
  "files_namer dir artifact =
     (case map_of [(''empty.json'', manifest_empty_kind), (''proxyy.json'', manifest_proxyy)]
             artifact of
        None \<Rightarrow> Inl IOError
      | Some v \<Rightarrow> Inr v)"

section \<open>Properties\<close>

subsection \<open>Sequencing\<close>

lemma seqE_Inl [simp]: "m s = (Inl e, s') \<Longrightarrow> seqE m f s = (Inl e, s')"
  by (simp add: seqE_def)

lemma seqE_Inr [simp]: "m s = (Inr v, s') \<Longrightarrow> seqE m f s = f v s'"
  by (simp add: seqE_def)

lemma liftE_simp [simp]: "liftE r s = (r, s)"
  by (simp add: liftE_def)

lemma modify_simp [simp]: "modify f s = (Inr (), f s)"
  by (simp add: modify_def)

lemma logger_simp [simp]:
  "logger level msg s = (Inr (), s\<lparr>logged := logged s @ [(level, msg)]\<rparr>)"
  by (simp add: logger_def)

lemma for_each_append:
  "for_each body (xs @ ys) s =
     (case for_each body xs s of
        (Inl e, s') \<Rightarrow> (Inl e, s')
      | (Inr u, s') \<Rightarrow> for_each body ys s')"
  by (induction xs arbitrary: s) (auto split: prod.splits sum.splits)

subsection \<open>Resource namer\<close>

lemma lower_examples:
  "lower ''Pod'' = ''pod''"
  "lower ''Policy'' = ''policy''"
  "lower ''BuildConfig'' = ''buildconfig''"
  "lower ''BuildStatus'' = ''buildstatus''"
  "lower ''Endpoints'' = ''endpoints''"
  by (simp_all add: lower_def lower_char_def)

text \<open>The five examples of the specification hold.\<close>

lemma kind_to_resource_examples:
  "kind_to_resource ''Pod'' = Inr ''pods''"
  "kind_to_resource ''Policy'' = Inr ''policies''"
  "kind_to_resource ''BuildConfig'' = Inr ''buildconfigs''"
  "kind_to_resource ''BuildStatus'' = Inr ''buildstatuses''"
  "kind_to_resource ''Endpoints'' = Inr ''endpoints''"
  by (simp_all add: kind_to_resource_def lower_examples endswith_def rstrip_def)

lemma endswith_single: "s \<noteq> [] \<Longrightarrow> endswith s [c] = (last s = c)"
  by (cases s rule: rev_cases) (auto simp: endswith_def)

lemma rstrip_single:
  assumes "s \<noteq> []" and "last s = c" and "\<not> endswith s [c, c]"
  shows "rstrip c s = butlast s"
proof -
  obtain t where s: "s = t @ [c]"
    using assms(1,2) by (metis append_butlast_last_id)
  have "t = [] \<or> last t \<noteq> c"
  proof (cases t rule: rev_cases)
    case Nil
    then show ?thesis by simp
  next
    case (snoc u x)
    with assms(3) s show ?thesis by (auto simp: endswith_def)
  qed
  then have "dropWhile (\<lambda>x. x = c) (rev t) = rev t"
    by (cases t rule: rev_cases) auto
  then show ?thesis using s by (simp add: rstrip_def)
qed

text \<open>
  The code follows the rule of the specification on every kind that is not empty and
  does not end in two \<open>y\<close>.
\<close>

lemma kind_to_resource_agrees:
  assumes "kind \<noteq> []" and "\<not> endswith (lower kind) ''yy''"
  shows "kind_to_resource kind = Inr (namer_spec kind)"
proof -
  have "lower kind \<noteq> []"
    using assms(1) by (simp add: lower_def)
  then show ?thesis
    using assms(2)
    by (simp add: kind_to_resource_def namer_spec_def Let_def endswith_single rstrip_single)
qed

text \<open>
  C1. The resource namer lower-cases the kind and appends \<open>es\<close> after \<open>status\<close>, keeps a
  final \<open>s\<close>, replaces one final \<open>y\<close> by \<open>ies\<close> and appends \<open>s\<close> otherwise, for every kind.
  The code does not: \<^verbatim>\<open>rstrip("y")\<close> removes every trailing \<open>y\<close>, so that the kind
  \<open>Proxyy\<close> becomes \<open>proxies\<close> where the rule gives \<open>proxyies\<close>, and the empty kind raises
  \<^verbatim>\<open>IndexError\<close> where the rule gives \<open>s\<close>.
\<close>

theorem kind_to_resource_strips_every_y:
  "kind_to_resource ''Proxyy'' = Inr ''proxies'' \<and> namer_spec ''Proxyy'' = ''proxyies'' \<and>
   kind_to_resource [] = Inl IndexError \<and> namer_spec [] = ''s''"
  by (simp add: kind_to_resource_def namer_spec_def lower_def lower_char_def endswith_def
      rstrip_def)

subsection \<open>What leaves the requests alone\<close>

lemma parse_kubeconf_calls: "calls (snd (parse_kubeconf env f s)) = calls s"
  unfolding parse_kubeconf_def seqE_def
  by (auto split: prod.splits sum.splits if_splits)

lemma decide_calls: "calls (snd (decide env r a p s)) = calls s"
  unfolding decide_def seqE_def Let_def
  by (auto split: prod.splits sum.splits if_splits)

lemma read_providerconfig_calls: "calls (snd (read_providerconfig env s)) = calls s"
  using parse_kubeconf_calls by (auto simp: read_providerconfig_def split: option.splits)

lemma get_config_values_calls: "calls (snd (get_config_values env s)) = calls s"
  unfolding get_config_values_def seqE_def
  apply (auto split: prod.splits sum.splits)
  apply (metis read_providerconfig_calls decide_calls snd_conv)+
  done

subsection \<open>Discovery\<close>

text \<open>Called as declared, a discovery method turns a status other than 200 into the
  exception of the provider, after one request.\<close>

lemma get_kapi_resources_not_200:
  assumes "respond env (calls s) (''get'', kubernetes_api s, JNull) = Response status body"
    and "status \<noteq> 200"
  shows "get_kapi_resources env s =
     (Inl (ProviderFailedException (Fmt ''Cannot get Kubernetes resource list'' [])),
      s\<lparr>calls := calls s @ [(''get'', kubernetes_api s, JNull)]\<rparr>)"
  using assms
  by (simp add: get_kapi_resources_def seqE_def make_request_def lower_def lower_char_def)

text \<open>
  C8. In every session the discovery query is made once for each API group, before any
  artifact is processed, and a status other than 200 raises the discovery error. The
  code does not: \<^verbatim>\<open>init\<close> calls \<^verbatim>\<open>_get_oapi_resources\<close> with an argument that the
  method does not take, so that every run of \<^verbatim>\<open>init\<close> ends in an exception without
  having sent a request.
\<close>

theorem init_sends_no_request:
  "(\<exists>e. fst (init env s) = Inl e) \<and> calls (snd (init env s)) = calls s"
proof -
  have "calls (snd (get_config_values env (s\<lparr>openshift_artifacts := []\<rparr>))) = calls s"
    by (simp add: get_config_values_calls)
  then show ?thesis
    unfolding init_def seqE_def call_no_args_def
    by (auto split: prod.splits sum.splits)
qed


subsection \<open>Config resolver\<close>








text \<open>
  C9. Parsing the config file finds the current context, then the cluster and the user
  that the context names, and fails with the error of a malformed config, and no other,
  whenever one of the three is not found. The code does not: the loops over the
  clusters and the users read \<^verbatim>\<open>context["context"]\<close> before the test for a missing
  context, so that a current context that no entry has raises \<^verbatim>\<open>TypeError\<close> as soon as
  there is a cluster (or a user). Only a file without clusters and users reaches the
  test.
\<close>

theorem parse_kubeconf_unknown_context:
  "fst (parse_kubeconf (test_env (\<lambda>f. Inr kubecfg_unknown_context) files cluster) ''config'' s) =
     Inl TypeError \<and>
   fst (parse_kubeconf (test_env (\<lambda>f. Inr kubecfg_empty) files cluster) ''config'' s) =
     Inl (ProviderFailedException (Fmt ''Invalid %s'' [JStr ''config'']))"
  by (simp add: parse_kubeconf_def test_env_def kubecfg_unknown_context_def kubecfg_empty_def)

text \<open>On the file of the docstring the three values are returned.\<close>

lemma parse_kubeconf_example:
  "fst (parse_kubeconf (test_env (\<lambda>f. Inr kubecfg_example) files cluster) ''config'' s) =
     Inr (JStr ''https://10.1.2.2:8443'', JStr ''abcdef'', JStr ''test'')"
  by (simp add: parse_kubeconf_def test_env_def kubecfg_example_def)

subsection \<open>URL resolver\<close>




subsection \<open>Deployment executor\<close>

text \<open>\<^verbatim>\<open>_get_url\<close> changes the log alone, and only when it returns.\<close>

lemma get_url_frame:
  "get_url env ns kind name s =
     (case fst (get_url env ns kind name s) of
        Inl e \<Rightarrow> (Inl e, s)
      | Inr url \<Rightarrow> (Inr url, s\<lparr>logged := logged s @ [(''debug'', Fmt ''url: %s'' [JStr url])]\<rparr>))"
  unfolding get_url_def seqE_def
  by (auto split: prod.splits sum.splits if_splits)

lemma get_url_Inr:
  "fst (get_url env ns kind name s) = Inr url \<Longrightarrow>
   get_url env ns kind name s =
     (Inr url, s\<lparr>logged := logged s @ [(''debug'', Fmt ''url: %s'' [JStr url])]\<rparr>)"
  using get_url_frame [of env ns kind name s] by simp

lemma get_url_Inl:
  "fst (get_url env ns kind name s) = Inl e \<Longrightarrow> get_url env ns kind name s = (Inl e, s)"
  using get_url_frame [of env ns kind name s] by simp

lemma lower_post [simp]: "lower ''post'' = ''post''"
  by (simp add: lower_def lower_char_def)

lemma make_request_post:
  "respond env (calls s) (''post'', url, data) = Response status body \<Longrightarrow>
   make_request env ''post'' url data s =
     (Inr (status, case body of None \<Rightarrow> JNull | Some d \<Rightarrow> d),
      s\<lparr>calls := calls s @ [(''post'', url, data)]\<rparr>)"
  by (simp add: make_request_def)

lemma deploy_artifact_post:
  assumes "\<not> dryrun s" and "get_namespace s a = Inr ns"
    and "fst (get_url env ns kind None s) = Inr url"
    and "respond env (calls s) (''post'', JStr url, a) = Response status body"
  shows "deploy_artifact env kind a s =
     (let s' = s\<lparr>logged := logged s @ [(''debug'', Fmt ''url: %s'' [JStr url])],
                 calls := calls s @ [(''post'', JStr url, a)]\<rparr>;
          return_data = (case body of None \<Rightarrow> JNull | Some d \<Rightarrow> d)
      in if status = 201 then
           (case bindE (py_getitem a ''metadata'') (\<lambda>m. py_getitem m ''name'') of
              Inl e \<Rightarrow> (Inl e, s')
            | Inr n \<Rightarrow> (Inr (), s'\<lparr>logged := logged s' @
                          [(''info'', Fmt ''Object %s sucessfully deployed.'' [n])]\<rparr>))
         else (Inl (ProviderFailedException (Fmt ''%s %s'' [JInt status, return_data])),
               s'\<lparr>logged := logged s' @ [(''error'', Fmt ''%s %s'' [JInt status, return_data])]\<rparr>))"
  using assms
  by (simp add: deploy_artifact_def get_url_Inr make_request_post Let_def split: sum.splits)

lemma for_each_registry:
  "for_each (\<lambda>(kind, objects). for_each (body kind) objects) reg s =
   for_each (\<lambda>(kind, a). body kind a) (registry_items reg) s"
proof (induction reg arbitrary: s)
  case Nil
  then show ?case by (simp add: registry_items_def)
next
  case (Cons x reg)
  obtain kind objects where x: "x = (kind, objects)" by (cases x)
  have inner: "\<And>s. for_each (body kind) objects s =
      for_each (\<lambda>(kind, a). body kind a) (map (Pair kind) objects) s"
    by (induction objects) (auto split: prod.splits sum.splits)
  have items: "registry_items (x # reg) = map (Pair kind) objects @ registry_items reg"
    by (simp add: registry_items_def x)
  show ?case
    using Cons.IH
    by (simp add: items for_each_append x inner registry_items_def split: prod.splits sum.splits)
qed

lemma deploy_items:
  "deploy env s =
     for_each (\<lambda>(kind, a). deploy_artifact env kind a) (registry_items (openshift_artifacts s))
       (s\<lparr>logged := logged s @ [(''debug'', Fmt ''Deploying to OpenShift'' [])]\<rparr>)"
  by (simp add: deploy_def for_each_registry)

text \<open>
  C5. In a deployment that is not a dry run, every object of the registry is posted. A
  response with status 201 for an object whose \<^verbatim>\<open>metadata.name\<close> can be read is a
  success, and the deployment goes on with the objects that follow. Any other status
  makes a message of the status and the body and ends the deployment with the exception
  of the provider carrying that message: the objects that follow are not posted, and no
  request is sent for the objects posted before, so that the requests made are those up
  to the rejected one. Without the condition on the name the first part does not hold,
  as the counterexample below shows; what happens then is C10.
\<close>

theorem deploy_stops_at_first_rejection:
  assumes "registry_items (openshift_artifacts s) = pre @ (kind, artifact) # post"
    and "for_each (\<lambda>(kind, a). deploy_artifact env kind a) pre
           (s\<lparr>logged := logged s @ [(''debug'', Fmt ''Deploying to OpenShift'' [])]\<rparr>) = (Inr (), s1)"
    and "\<not> dryrun s1" and "get_namespace s1 artifact = Inr ns"
    and "fst (get_url env ns kind None s1) = Inr url"
    and "respond env (calls s1) (''post'', JStr url, artifact) = Response status body"
    and "return_data = (case body of None \<Rightarrow> JNull | Some d \<Rightarrow> d)"
    and "s2 = s1\<lparr>logged := logged s1 @ [(''debug'', Fmt ''url: %s'' [JStr url])],
                  calls := calls s1 @ [(''post'', JStr url, artifact)]\<rparr>"
  shows "(status = 201 \<and> bindE (py_getitem artifact ''metadata'') (\<lambda>m. py_getitem m ''name'') = Inr n \<longrightarrow>
            deploy env s =
              for_each (\<lambda>(kind, a). deploy_artifact env kind a) post
                (s2\<lparr>logged := logged s2 @ [(''info'', Fmt ''Object %s sucessfully deployed.'' [n])]\<rparr>)) \<and>
         (status \<noteq> 201 \<longrightarrow>
            deploy env s =
              (Inl (ProviderFailedException (Fmt ''%s %s'' [JInt status, return_data])),
               s2\<lparr>logged := logged s2 @ [(''error'', Fmt ''%s %s'' [JInt status, return_data])]\<rparr>))"
proof -
  note step = deploy_artifact_post [OF assms(3) assms(4) assms(5) assms(6)]
  show ?thesis
    using assms(1,2,7,8)
    by (simp add: deploy_items for_each_append step Let_def)
qed


lemma get_namespace_logged [simp]:
  "get_namespace (s\<lparr>logged := l\<rparr>) a = get_namespace s a"
  by (simp add: get_namespace_def cong: if_cong)

lemma get_namespace_calls [simp]:
  "get_namespace (s\<lparr>calls := l\<rparr>) a = get_namespace s a"
  by (simp add: get_namespace_def cong: if_cong)

lemma get_url_logged:
  "fst (get_url env ns kind name (s\<lparr>logged := l\<rparr>)) = fst (get_url env ns kind name s)"
  unfolding get_url_def seqE_def api_base_def
  by (auto split: prod.splits sum.splits if_splits option.splits)


subsection \<open>Evaluation on the concrete inputs\<close>

lemmas fixture_defs =
  test_env_def discovered_def OpenShiftProvider_def concat_join_def cluster_example_def
  files_example_def pod_web_def pod_db_def pod_unnamed_def service_svc1_def
  crontab_example_def template_example_def template_unnamed_def

lemmas method_defs =
  deploy_artifact_def get_url_def api_base_def get_namespace_def make_request_def
  kind_to_resource_def endswith_def rstrip_def py_str_def requested_def
  process_template_def process_artifact_def process_artifacts_def supported_def
  add_object_def registry_append_def registry_items_def seqE_def

lemma lower_fixture [simp]:
  "lower ''pod'' = ''pod''" "lower ''service'' = ''service''"
  "lower ''processedtemplates'' = ''processedtemplates''"
  "lower ''Pod'' = ''pod''" "lower ''Service'' = ''service''"
  "lower ''CronTab'' = ''crontab''" "lower ''crontab'' = ''crontab''"
  "lower ''Template'' = ''template''" "lower ''template'' = ''template''"
  by (simp_all add: lower_def lower_char_def)

theorem deploy_stops_at_first_rejection_witness:
  "fst (deploy (test_env (\<lambda>f. Inl IOError) files_example (cluster_example 1))
         (discovered (test_env (\<lambda>f. Inl IOError) files_example (cluster_example 1)) [] False
            [(''pod'', [pod_web, pod_db]), (''service'', [service_svc1])])) =
     Inl (ProviderFailedException
            (Fmt ''%s %s'' [JInt 409, JDict [(''message'', JStr ''already exists'')]])) \<and>
   calls (snd (deploy (test_env (\<lambda>f. Inl IOError) files_example (cluster_example 1))
         (discovered (test_env (\<lambda>f. Inl IOError) files_example (cluster_example 1)) [] False
            [(''pod'', [pod_web, pod_db]), (''service'', [service_svc1])]))) =
     [(''post'', JStr ''https://127.0.0.1:8443/api/v1/namespaces/myproject/pods/?access_token=None'',
       pod_web),
      (''post'', JStr ''https://127.0.0.1:8443/api/v1/namespaces/backend/pods/?access_token=None'',
       pod_db)]"
proof -
  let ?E = "test_env (\<lambda>f. Inl IOError) files_example (cluster_example 1)"
  let ?S = "discovered ?E [] False [(''pod'', [pod_web, pod_db]), (''service'', [service_svc1])]"
  let ?Sdbg = "?S\<lparr>logged := logged ?S @ [(''debug'', Fmt ''Deploying to OpenShift'' [])]\<rparr>"
  let ?body = "\<lambda>(kind, a). deploy_artifact ?E kind a"
  let ?pre = "[(''pod'', pod_web)]"
  let ?mid = "snd (for_each ?body ?pre ?Sdbg)"
  let ?ua = "''https://127.0.0.1:8443/api/v1/namespaces/myproject/pods/?access_token=None''"
  let ?ub = "''https://127.0.0.1:8443/api/v1/namespaces/backend/pods/?access_token=None''"
  have items: "registry_items (openshift_artifacts ?S) =
      ?pre @ (''pod'', pod_db) # [(''service'', service_svc1)]"
    by (simp add: registry_items_def discovered_def)
  have "fst (for_each ?body ?pre ?Sdbg) = Inr ()"
    by (simp add: fixture_defs method_defs)
  then have pre: "for_each ?body ?pre ?Sdbg = (Inr (), ?mid)"
    by (metis prod.collapse)
  have dry: "\<not> dryrun ?mid"
    by (simp add: fixture_defs method_defs)
  have ns: "get_namespace ?mid pod_db = Inr (JStr ''backend'')"
    by (simp add: fixture_defs method_defs)
  have url: "fst (get_url ?E (JStr ''backend'') ''pod'' None ?mid) = Inr ?ub"
    by (simp add: fixture_defs method_defs)
  have c1: "calls ?mid = [(''post'', JStr ?ua, pod_web)]"
    by (simp add: fixture_defs method_defs)
  have resp: "respond ?E (calls ?mid) (''post'', JStr ?ub, pod_db) =
      Response 409 (Some (JDict [(''message'', JStr ''already exists'')]))"
    unfolding c1 by (simp add: test_env_def cluster_example_def)
  show ?thesis
    using deploy_stops_at_first_rejection [OF items pre dry ns url resp refl refl] c1
    by simp
qed

text \<open>
  After a response 201 the deployment does not always go on: the success line reads
  \<^verbatim>\<open>artifact['metadata']['name']\<close>, so that an object without a name ends the deployment
  with \<^verbatim>\<open>KeyError\<close> once it has been posted, and the object after it is never posted,
  on a cluster that answers every request with 201.
\<close>

theorem deploy_continues_counterexample:
  "respond (test_env (\<lambda>f. Inl IOError) files_example (cluster_example 5)) []
     (''post'', JStr ''https://127.0.0.1:8443/api/v1/namespaces/myproject/pods/?access_token=None'',
      pod_unnamed) =
     Response 201 (Some (JDict [(''objects'', JList [service_svc1, pod_web, pod_db])])) \<and>
   fst (deploy (test_env (\<lambda>f. Inl IOError) files_example (cluster_example 5))
         (discovered (test_env (\<lambda>f. Inl IOError) files_example (cluster_example 5)) [] False
            [(''pod'', [pod_unnamed, pod_web])])) = Inl KeyError \<and>
   calls (snd (deploy (test_env (\<lambda>f. Inl IOError) files_example (cluster_example 5))
         (discovered (test_env (\<lambda>f. Inl IOError) files_example (cluster_example 5)) [] False
            [(''pod'', [pod_unnamed, pod_web])]))) =
     [(''post'', JStr ''https://127.0.0.1:8443/api/v1/namespaces/myproject/pods/?access_token=None'',
       pod_unnamed)]"
  by (simp add: deploy_def fixture_defs method_defs)



subsection \<open>Artifact processor\<close>

text \<open>
  Where the resource namer returns, a manifest whose resource name is in neither list of
  resources ends the processing with the exception of the provider, whose message names
  the kind and the artifact. Nothing is added to the registry for it: the state is the
  one left by the manifests before it, with one more debug line.
\<close>

theorem unsupported_kind_rejected:
  assumes "artifacts s = pre @ artifact # rest"
    and "for_each (process_artifact env) pre s = (Inr (), s1)"
    and "read_artifact env (path s1) artifact = Inr (JDict d)"
    and "map_of d ''kind'' = Some (JStr k)"
    and "kind_to_resource (lower k) = Inr resource"
    and "oapi_resources s1 = Some oapi" and "kapi_resources s1 = Some kapi"
    and "JStr resource \<notin> set oapi" and "JStr resource \<notin> set kapi"
  shows "process_artifacts env s =
     (Inl (ProviderFailedException
             (Fmt ''Unsupported kind %s in artifact %s'' [JStr (lower k), JStr artifact])),
      s1\<lparr>logged := logged s1 @ [(''debug'', Fmt ''Processing artifact: %s'' [JStr artifact])]\<rparr>)"
proof -
  have "process_artifact env artifact s1 =
     (Inl (ProviderFailedException
             (Fmt ''Unsupported kind %s in artifact %s'' [JStr (lower k), JStr artifact])),
      s1\<lparr>logged := logged s1 @ [(''debug'', Fmt ''Processing artifact: %s'' [JStr artifact])]\<rparr>)"
    using assms(3-9)
    by (simp add: process_artifact_def supported_def)
  then show ?thesis
    using assms(1,2) by (simp add: process_artifacts_def for_each_append)
qed

theorem unsupported_kind_rejected_witness:
  "fst (process_artifacts (test_env (\<lambda>f. Inl IOError) files_example (cluster_example 0))
         (discovered (test_env (\<lambda>f. Inl IOError) files_example (cluster_example 0))
            [''pod.json'', ''crontab.json'', ''template.json''] False [])) =
     Inl (ProviderFailedException
            (Fmt ''Unsupported kind %s in artifact %s'' [JStr ''crontab'', JStr ''crontab.json''])) \<and>
   openshift_artifacts (snd (process_artifacts (test_env (\<lambda>f. Inl IOError) files_example (cluster_example 0))
         (discovered (test_env (\<lambda>f. Inl IOError) files_example (cluster_example 0))
            [''pod.json'', ''crontab.json'', ''template.json''] False []))) =
     [(''pod'', [pod_web])] \<and>
   calls (snd (process_artifacts (test_env (\<lambda>f. Inl IOError) files_example (cluster_example 0))
         (discovered (test_env (\<lambda>f. Inl IOError) files_example (cluster_example 0))
            [''pod.json'', ''crontab.json'', ''template.json''] False []))) = []"
proof -
  let ?E = "test_env (\<lambda>f. Inl IOError) files_example (cluster_example 0)"
  let ?S = "discovered ?E [''pod.json'', ''crontab.json'', ''template.json''] False []"
  let ?mid = "snd (for_each (process_artifact ?E) [''pod.json''] ?S)"
  have a: "artifacts ?S = [''pod.json''] @ ''crontab.json'' # [''template.json'']"
    by (simp add: fixture_defs)
  have "fst (for_each (process_artifact ?E) [''pod.json''] ?S) = Inr ()"
    by (simp add: fixture_defs method_defs)
  then have pre: "for_each (process_artifact ?E) [''pod.json''] ?S = (Inr (), ?mid)"
    by (metis prod.collapse)
  have rd: "read_artifact ?E (path ?mid) ''crontab.json'' =
      Inr (JDict [(''kind'', JStr ''CronTab''), (''metadata'', JDict [(''name'', JStr ''nightly'')])])"
    by (simp add: fixture_defs)
  have kd: "map_of [(''kind'', JStr ''CronTab''), (''metadata'', JDict [(''name'', JStr ''nightly'')])]
      ''kind'' = Some (JStr ''CronTab'')"
    by simp
  have res: "kind_to_resource (lower ''CronTab'') = Inr ''crontabs''"
    by (simp add: kind_to_resource_def endswith_def)
  have o: "oapi_resources ?mid =
      Some [JStr ''deploymentconfigs'', JStr ''templates'', JStr ''processedtemplates'']"
    and k: "kapi_resources ?mid = Some [JStr ''pods'', JStr ''services'']"
    and reg: "openshift_artifacts ?mid = [(''pod'', [pod_web])]"
    and cs: "calls ?mid = []"
    by (simp_all add: fixture_defs method_defs)
  have n1: "JStr ''crontabs'' \<notin> set [JStr ''deploymentconfigs'', JStr ''templates'', JStr ''processedtemplates'']"
    and n2: "JStr ''crontabs'' \<notin> set [JStr ''pods'', JStr ''services'']"
    by simp_all
  show ?thesis
    using unsupported_kind_rejected [OF a pre rd kd res o k n1 n2] reg cs
    by simp
qed

text \<open>
  C7. Every parsed manifest that declares a kind whose plural resource name is in neither
  list of resources is refused with the exception that names the kind and the artifact,
  and nothing is added to the registry for it. The code does not, where its resource
  namer leaves the rule (C1): a manifest with the empty kind, whose plural \<open>s\<close> is in
  neither list, ends the processing with \<^verbatim>\<open>IndexError\<close>; a manifest of kind \<open>Proxyy\<close>,
  whose plural \<open>proxyies\<close> is in neither list, is added to the registry when the cluster
  serves \<open>proxies\<close>.
\<close>

theorem process_artifact_follows_namer:
  "fst (process_artifact (test_env (\<lambda>f. Inl IOError) files_namer (cluster_example 0))
          ''empty.json''
          ((discovered (test_env (\<lambda>f. Inl IOError) files_namer (cluster_example 0))
              [''empty.json'', ''proxyy.json''] False [])
             \<lparr>kapi_resources := Some [JStr ''pods'', JStr ''proxies'']\<rparr>)) = Inl IndexError \<and>
   namer_spec [] = ''s'' \<and>
   supported ((discovered (test_env (\<lambda>f. Inl IOError) files_namer (cluster_example 0))
              [''empty.json'', ''proxyy.json''] False [])
             \<lparr>kapi_resources := Some [JStr ''pods'', JStr ''proxies'']\<rparr>) ''s'' = Inr False \<and>
   process_artifact (test_env (\<lambda>f. Inl IOError) files_namer (cluster_example 0))
          ''proxyy.json''
          ((discovered (test_env (\<lambda>f. Inl IOError) files_namer (cluster_example 0))
              [''empty.json'', ''proxyy.json''] False [])
             \<lparr>kapi_resources := Some [JStr ''pods'', JStr ''proxies'']\<rparr>) =
     (Inr (),
      (discovered (test_env (\<lambda>f. Inl IOError) files_namer (cluster_example 0))
              [''empty.json'', ''proxyy.json''] False [])
             \<lparr>kapi_resources := Some [JStr ''pods'', JStr ''proxies''],
              openshift_artifacts := [(''proxyy'', [manifest_proxyy])],
              logged := [(''debug'', Fmt ''Processing artifact: %s'' [JStr ''proxyy.json''])]\<rparr>) \<and>
   namer_spec ''Proxyy'' = ''proxyies'' \<and>
   supported ((discovered (test_env (\<lambda>f. Inl IOError) files_namer (cluster_example 0))
              [''empty.json'', ''proxyy.json''] False [])
             \<lparr>kapi_resources := Some [JStr ''pods'', JStr ''proxies'']\<rparr>) ''proxyies'' = Inr False"
  by (simp add: fixture_defs method_defs files_namer_def manifest_empty_kind_def
      manifest_proxyy_def namer_spec_def lower_def lower_char_def)

subsection \<open>Dry run\<close>

lemma would_be_url_logged [simp]:
  "would_be_url env (s\<lparr>logged := l\<rparr>) kind a = would_be_url env s kind a"
  by (simp add: would_be_url_def get_url_logged)

lemma deploy_artifact_dry_run:
  assumes "dryrun s"
  shows "deploy_artifact env kind a s =
     (case would_be_url env s kind a of
        Inl e \<Rightarrow> (Inl e, s)
      | Inr url \<Rightarrow>
          (Inr (), s\<lparr>logged := logged s @ [(''debug'', Fmt ''url: %s'' [JStr url]),
                                             (''info'', Fmt ''DRY-RUN: %s'' [JStr url])]\<rparr>))"
proof (cases "get_namespace s a")
  case (Inl e)
  then show ?thesis by (simp add: deploy_artifact_def would_be_url_def)
next
  case (Inr ns)
  show ?thesis
  proof (cases "fst (get_url env ns kind None s)")
    case (Inl e)
    then show ?thesis
      using Inr by (simp add: deploy_artifact_def would_be_url_def get_url_Inl)
  next
    case u: (Inr url)
    then show ?thesis
      using Inr assms by (simp add: deploy_artifact_def would_be_url_def get_url_Inr)
  qed
qed

lemma for_each_dry_run:
  assumes "dryrun s"
  shows "(\<exists>l. snd (for_each (\<lambda>(kind, a). deploy_artifact env kind a) items s) =
           s\<lparr>logged := l\<rparr>) \<and>
         (fst (for_each (\<lambda>(kind, a). deploy_artifact env kind a) items s) = Inr () \<longrightarrow>
            (\<exists>urls. map (\<lambda>(kind, a). would_be_url env s kind a) items = map Inr urls \<and>
               logged (snd (for_each (\<lambda>(kind, a). deploy_artifact env kind a) items s)) =
                 logged s @ dry_lines urls))"
  using assms
proof (induction items arbitrary: s)
  case Nil
  have "s = s\<lparr>logged := logged s\<rparr>" by simp
  then have "\<exists>l. s = s\<lparr>logged := l\<rparr>" by (rule exI)
  then show ?case by (simp add: dry_lines_def)
next
  case (Cons x items)
  obtain kind a where x: "x = (kind, a)" by (cases x)
  show ?case
  proof (cases "would_be_url env s kind a")
    case (Inl e)
    have "s = s\<lparr>logged := logged s\<rparr>" by simp
    then have "\<exists>l. s = s\<lparr>logged := l\<rparr>" by (rule exI)
    then show ?thesis
      using Cons.prems Inl by (simp add: x deploy_artifact_dry_run)
  next
    case (Inr url)
    let ?s' = "s\<lparr>logged := logged s @ [(''debug'', Fmt ''url: %s'' [JStr url]),
                                         (''info'', Fmt ''DRY-RUN: %s'' [JStr url])]\<rparr>"
    let ?r = "for_each (\<lambda>(kind, a). deploy_artifact env kind a) items ?s'"
    have step: "for_each (\<lambda>(kind, a). deploy_artifact env kind a) (x # items) s = ?r"
      using Cons.prems Inr by (simp add: x deploy_artifact_dry_run)
    have dry: "dryrun ?s'" using Cons.prems by simp
    note ih = Cons.IH [OF dry]
    have frame: "\<exists>l. snd ?r = s\<lparr>logged := l\<rparr>"
    proof -
      from ih obtain l where "snd ?r = ?s'\<lparr>logged := l\<rparr>" by blast
      then have "snd ?r = s\<lparr>logged := l\<rparr>" by simp
      then show ?thesis by (rule exI)
    qed
    have urls: "\<exists>urls. map (\<lambda>(kind, a). would_be_url env s kind a) (x # items) = map Inr urls \<and>
               logged (snd ?r) = logged s @ dry_lines urls" if ok: "fst ?r = Inr ()"
    proof -
      from ih ok obtain urls where
        u: "map (\<lambda>(kind, a). would_be_url env ?s' kind a) items = map Inr urls"
        and l: "logged (snd ?r) = logged ?s' @ dry_lines urls"
        by blast
      have "map (\<lambda>(kind, a). would_be_url env s kind a) (x # items) = map Inr (url # urls)"
        using u Inr by (simp add: x)
      moreover have "logged (snd ?r) = logged s @ dry_lines (url # urls)"
        using l by (simp add: dry_lines_def)
      ultimately show ?thesis by blast
    qed
    show ?thesis
      unfolding step using frame urls by blast
  qed
qed

text \<open>
  C6. In a dry run the deployment sends no request: the requests are those made before,
  and nothing of the provider changes but the log. When the deployment returns, the log
  has gained, for every object of the registry in turn, the URL that would have been
  used, as a debug line of \<^verbatim>\<open>_get_url\<close> and as the line \<^verbatim>\<open>DRY-RUN\<close>.
\<close>

theorem deploy_dry_run:
  assumes "dryrun s"
  shows "calls (snd (deploy env s)) = calls s \<and>
         (\<exists>l. snd (deploy env s) = s\<lparr>logged := l\<rparr>) \<and>
         (fst (deploy env s) = Inr () \<longrightarrow>
            (\<exists>urls. map (\<lambda>(kind, a). would_be_url env s kind a)
                      (registry_items (openshift_artifacts s)) = map Inr urls \<and>
               logged (snd (deploy env s)) =
                 logged s @ (''debug'', Fmt ''Deploying to OpenShift'' []) # dry_lines urls))"
proof -
  let ?sd = "s\<lparr>logged := logged s @ [(''debug'', Fmt ''Deploying to OpenShift'' [])]\<rparr>"
  let ?r = "for_each (\<lambda>(kind, a). deploy_artifact env kind a)
              (registry_items (openshift_artifacts s)) ?sd"
  have d: "deploy env s = ?r"
    by (simp add: deploy_items)
  have dry: "dryrun ?sd" using assms by simp
  note l = for_each_dry_run [OF dry, of env "registry_items (openshift_artifacts s)"]
  from l obtain lg where lg: "snd ?r = ?sd\<lparr>logged := lg\<rparr>" by blast
  then have eq: "snd ?r = s\<lparr>logged := lg\<rparr>" by simp
  then have frame: "\<exists>l. snd ?r = s\<lparr>logged := l\<rparr>" by (rule exI)
  have cs: "calls (snd ?r) = calls s"
    by (simp add: eq)
  have urls: "\<exists>urls. map (\<lambda>(kind, a). would_be_url env s kind a)
                      (registry_items (openshift_artifacts s)) = map Inr urls \<and>
               logged (snd ?r) =
                 logged s @ (''debug'', Fmt ''Deploying to OpenShift'' []) # dry_lines urls"
    if ok: "fst ?r = Inr ()"
  proof -
    from l ok obtain urls where
      "map (\<lambda>(kind, a). would_be_url env ?sd kind a)
          (registry_items (openshift_artifacts s)) = map Inr urls"
      and "logged (snd ?r) = logged ?sd @ dry_lines urls"
      by blast
    then show ?thesis by auto
  qed
  show ?thesis
    unfolding d using cs frame urls by blast
qed

theorem deploy_dry_run_witness:
  "calls (snd (deploy (test_env (\<lambda>f. Inl IOError) files_example (cluster_example 1))
         (discovered (test_env (\<lambda>f. Inl IOError) files_example (cluster_example 1)) [] True
            [(''pod'', [pod_web, pod_db]), (''service'', [service_svc1])]))) = [] \<and>
   fst (deploy (test_env (\<lambda>f. Inl IOError) files_example (cluster_example 1))
         (discovered (test_env (\<lambda>f. Inl IOError) files_example (cluster_example 1)) [] True
            [(''pod'', [pod_web, pod_db]), (''service'', [service_svc1])])) = Inr () \<and>
   filter (\<lambda>e. fst e = ''info'')
     (logged (snd (deploy (test_env (\<lambda>f. Inl IOError) files_example (cluster_example 1))
         (discovered (test_env (\<lambda>f. Inl IOError) files_example (cluster_example 1)) [] True
            [(''pod'', [pod_web, pod_db]), (''service'', [service_svc1])])))) =
     [(''info'', Fmt ''DRY-RUN: %s''
         [JStr ''https://127.0.0.1:8443/api/v1/namespaces/myproject/pods/?access_token=None'']),
      (''info'', Fmt ''DRY-RUN: %s''
         [JStr ''https://127.0.0.1:8443/api/v1/namespaces/backend/pods/?access_token=None'']),
      (''info'', Fmt ''DRY-RUN: %s''
         [JStr ''https://127.0.0.1:8443/api/v1/namespaces/myproject/services/?access_token=None''])]"
proof -
  let ?E = "test_env (\<lambda>f. Inl IOError) files_example (cluster_example 1)"
  let ?S = "discovered ?E [] True [(''pod'', [pod_web, pod_db]), (''service'', [service_svc1])]"
  have dry: "dryrun ?S" by (simp add: fixture_defs)
  have cs: "calls ?S = []" by (simp add: fixture_defs)
  have ev: "fst (deploy ?E ?S) = Inr ()"
    "filter (\<lambda>e. fst e = ''info'') (logged (snd (deploy ?E ?S))) =
     [(''info'', Fmt ''DRY-RUN: %s''
         [JStr ''https://127.0.0.1:8443/api/v1/namespaces/myproject/pods/?access_token=None'']),
      (''info'', Fmt ''DRY-RUN: %s''
         [JStr ''https://127.0.0.1:8443/api/v1/namespaces/backend/pods/?access_token=None'']),
      (''info'', Fmt ''DRY-RUN: %s''
         [JStr ''https://127.0.0.1:8443/api/v1/namespaces/myproject/services/?access_token=None''])]"
    by (simp_all add: deploy_def fixture_defs method_defs)
  show ?thesis
    using deploy_dry_run [OF dry, of ?E] cs ev by simp
qed

subsection \<open>Templates\<close>








end
